theory Spec2Isabelle
  imports
    Complex_Main
    "HOL-Library.Char_ord"
    "HOL-Library.List_Lexorder"
    "HOL-Library.Product_Lexorder"
begin

section \<open>Strings\<close>

text \<open>
  A JavaScript string is a sequence of code units; here it is a \<^typ>\<open>string\<close> whose
  characters stand for the code units of the ASCII range. \<open>String.prototype.trim\<close>
  removes the white space and line terminators of ECMAScript from both ends; in the ASCII
  range these are TAB, LF, VT, FF, CR and SPACE. \<open>toUpperCase\<close> maps \<open>a\<close>..\<open>z\<close> to
  \<open>A\<close>..\<open>Z\<close> and leaves every other ASCII character alone.
\<close>

definition is_space :: "char \<Rightarrow> bool" where
  "is_space c \<longleftrightarrow> c \<in> set [CHR 0x09, CHR 0x0A, CHR 0x0B, CHR 0x0C, CHR 0x0D, CHR 0x20]"

definition trim :: "string \<Rightarrow> string" where
  "trim s = rev (dropWhile is_space (rev (dropWhile is_space s)))"



section \<open>Data model (src/server/db/schema.ts)\<close>

text \<open>
  The table \<open>registros\<close>: a row is the inserted values plus the serial \<open>id\<close>. The records
  below follow the stages a submitted item goes through: the JSON item (\<open>detalle\<close> may be
  absent), the item parsed by the schema (\<open>detalle\<close> defaulted), the values handed to
  \<open>insert\<close> (with \<open>usuario\<close> and \<open>creadoEn\<close>), and the stored row.
\<close>

record campos =
  dependencia :: string
  identificacion :: string
  grado :: string
  nombresCompletos :: string
  motivo :: string


record detallado = campos +
  detalle :: string

record nuevoRegistro = detallado +
  usuario :: string
  creadoEn :: int

record registro = nuevoRegistro +
  reg_id :: int

record user =
  user_id :: int
  email :: string
  passwordHash :: string
  name :: string
  unidad :: "string option"
  createdAt :: int

text \<open>
  The database behind drizzle: the two tables, the sequence of \<open>registros.id\<close>, and
  \<open>throws\<close>, which says for each kind of statement whether the storage refuses it (a lost
  connection, a value the column rejects). A statement that throws changes nothing; the
  handlers catch it and answer 500. Rows are kept in insertion order.
\<close>

datatype sentencia = Select | Insert | Delete

datatype db_error = DbError

record db =
  users :: "user list"
  registros :: "registro list"
  registros_id_seq :: int
  throws :: "sentencia \<Rightarrow> bool"






section \<open>Responses\<close>

text \<open>
  The message literals of the handlers, one constructor per literal:
  \<^item> \<open>DatosInvalidos\<close>: "Datos de entrada invalidos" (with an accent in the source);
  \<^item> \<open>CredencialesInvalidas\<close>: "Credenciales invalidas";
  \<^item> \<open>YaIngresada i d\<close>: "La identificacion i ya fue ingresada en la dependencia d.";
  \<^item> \<open>YaRegistrada i d\<close>: "La identificacion i ya esta registrada en la dependencia d.";
  and so on, each named after its text.
\<close>

datatype mensaje =
    DatosInvalidos
  | CredencialesInvalidas
  | InicioExitoso
  | ErrorInternoServidor
  | UsuarioObligatorio
  | YaIngresada string string
  | YaRegistrada string string
  | RegistrosGuardados
  | ErrorInternoGuardar
  | ErrorInternoAgregados
  | IdentificadorInvalido
  | DebeEspecificarEliminar
  | RegistroNoEncontrado
  | RegistroEliminado
  | ErrorInternoEliminar
  | DebeEspecificarConsultar
  | ErrorInternoPdf

datatype origen = Payload | Database

text \<open>
  The JSON bodies. \<open>Errores\<close> is \<open>{ message, errors: parsed.error.flatten() }\<close>; what zod
  reports under \<open>errors\<close> is not modelled.
\<close>

datatype cuerpo =
    Mensaje mensaje
  | Errores mensaje
  | Conflicto mensaje string string origen
  | Guardados mensaje nat
  | Sesion mensaje string int string string
  | Dependencias "(string \<times> nat) list"

record respuesta =
  status :: nat
  json :: cuerpo

section \<open>POST /api/registros\<close>





text \<open>
  The \<open>valores\<close> of the handler: \<open>valor\<close> is the object the callback of \<open>map\<close> builds
  for one item, and \<open>clock k\<close> is what \<open>new Date()\<close> reads for item \<open>k\<close>.
\<close>

definition valor :: "string \<Rightarrow> int \<Rightarrow> detallado \<Rightarrow> nuevoRegistro" where
  "valor normalizedUsuario ahora registro =
     \<lparr>dependencia = trim (dependencia registro),
      identificacion = trim (identificacion registro),
      grado = trim (grado registro),
      nombresCompletos = trim (nombresCompletos registro),
      motivo = trim (motivo registro),
      detalle = trim (detalle registro),
      usuario = normalizedUsuario,
      creadoEn = ahora\<rparr>"

definition valores_de :: "(nat \<Rightarrow> int) \<Rightarrow> string \<Rightarrow> detallado list \<Rightarrow> nuevoRegistro list" where
  "valores_de clock normalizedUsuario registrosEntrada =
     map (\<lambda>(k, registro). valor normalizedUsuario (clock k) registro)
         (enumerate 0 registrosEntrada)"






section \<open>POST /api/login\<close>

record cuerpo_login =
  body_email :: string
  body_password :: string

text \<open>
  \<open>loginSchema.safeParse(req.body)\<close>; \<open>is_email\<close> is zod's \<open>string().email()\<close> test, a
  parameter here.
\<close>

definition loginSchema ::
  "(string \<Rightarrow> bool) \<Rightarrow> cuerpo_login option \<Rightarrow> (string \<times> string) option" where
  "loginSchema is_email body =
     (case body of
        None \<Rightarrow> None
      | Some b \<Rightarrow>
          if is_email (body_email b) \<and> 6 \<le> length (body_password b)
          then Some (body_email b, body_password b)
          else None)"

definition findFirst_user :: "db \<Rightarrow> string \<Rightarrow> db_error + user option" where
  "findFirst_user d e =
     (if throws d Select then Inl DbError else Inr (find (\<lambda>u. email u = e) (users d)))"

text \<open>
  \<open>bcrypt_compare\<close> is \<open>bcrypt.compare\<close> and \<open>sessionToken\<close> what \<open>randomUUID()\<close> returns.
\<close>

definition post_login ::
  "(string \<Rightarrow> bool) \<Rightarrow> (string \<Rightarrow> string \<Rightarrow> bool) \<Rightarrow> string \<Rightarrow> cuerpo_login option \<Rightarrow> db \<Rightarrow>
   respuesta" where
  "post_login is_email bcrypt_compare sessionToken body d =
     (case loginSchema is_email body of
        None \<Rightarrow> \<lparr>status = 400, json = Errores DatosInvalidos\<rparr>
      | Some (email_in, password) \<Rightarrow>
          (case findFirst_user d email_in of
             Inl e \<Rightarrow> \<lparr>status = 500, json = Mensaje ErrorInternoServidor\<rparr>
           | Inr None \<Rightarrow> \<lparr>status = 401, json = Mensaje CredencialesInvalidas\<rparr>
           | Inr (Some foundUser) \<Rightarrow>
               if \<not> bcrypt_compare password (passwordHash foundUser)
               then \<lparr>status = 401, json = Mensaje CredencialesInvalidas\<rparr>
               else \<lparr>status = 200,
                     json = Sesion InicioExitoso sessionToken (user_id foundUser)
                              (email foundUser) (name foundUser)\<rparr>))"

section \<open>GET /api/registros/por-dependencia\<close>

text \<open>
  \<open>select dependencia, count(id) from registros group by dependencia order by count(id)
  desc\<close>: one group per value of \<open>dependencia\<close> that occurs, with the number of its rows
  (\<open>id\<close> is never null), sorted by descending count. SQL leaves the order of equal counts
  open; the stable sort below picks one.
\<close>

definition select_por_dependencia :: "db \<Rightarrow> db_error + (string \<times> nat) list" where
  "select_por_dependencia d =
     (if throws d Select then Inl DbError
      else Inr (sort_key (\<lambda>g. - int (snd g))
                  (map (\<lambda>dep. (dep, length (filter (\<lambda>r. dependencia r = dep) (registros d))))
                       (remdups (map dependencia (registros d))))))"

definition get_por_dependencia :: "db \<Rightarrow> respuesta" where
  "get_por_dependencia d =
     (case select_por_dependencia d of
        Inl e \<Rightarrow> \<lparr>status = 500, json = Mensaje ErrorInternoAgregados\<rparr>
      | Inr resultados \<Rightarrow> \<lparr>status = 200, json = Dependencias resultados\<rparr>)"

section \<open>DELETE /api/registros/:id\<close>






section \<open>GET /api/registros/pdf\<close>

subsection \<open>The query\<close>


subsection \<open>The document\<close>
















subsection \<open>Columns\<close>










subsection \<open>The table\<close>








subsection \<open>The handler\<close>










section \<open>Notions used to state the properties\<close>




text \<open>The number of rows of a unit.\<close>

definition cuenta :: "registro list \<Rightarrow> string \<Rightarrow> nat" where
  "cuenta rs dep = length (filter (\<lambda>r. dependencia r = dep) rs)"




section \<open>Example data\<close>





definition fila :: "int \<Rightarrow> string \<Rightarrow> string \<Rightarrow> string \<Rightarrow> registro" where
  "fila i dep ident usr =
     \<lparr>dependencia = dep, identificacion = ident, grado = ''CBOS'',
      nombresCompletos = ''Eva Ruiz'', motivo = ''Permiso'', detalle = [],
      usuario = usr, creadoEn = 0, reg_id = i\<rparr>"




text \<open>
  For the login: a stand-in for zod's email test and one for \<open>bcrypt.compare\<close>, and a
  database with one user. For the deletion: a database whose row 7 belongs to
  \<open>z@y.com\<close>, as in the specification's example.
\<close>

definition con_arroba :: "string \<Rightarrow> bool" where
  "con_arroba s \<longleftrightarrow> CHR ''@'' \<in> set s"

definition compara :: "string \<Rightarrow> string \<Rightarrow> bool" where
  "compara password hash \<longleftrightarrow> hash = ''$2a$'' @ password"

definition ana :: user where
  "ana = \<lparr>user_id = 1, email = ''ana@y.com'', passwordHash = ''$2a$secreto1'',
          name = ''Ana Paz'', unidad = None, createdAt = 0\<rparr>"

definition db_usuarios :: db where
  "db_usuarios = \<lparr>users = [ana], registros = [], registros_id_seq = 1, throws = (\<lambda>s. False)\<rparr>"



text \<open>A database with one row of unit \<open>A\<close> and two of unit \<open>B\<close>, of different users.\<close>

definition db_tres :: db where
  "db_tres = \<lparr>users = [],
                registros = [fila 1 ''A'' ''AAA111'' ''x@y.com'', fila 2 ''B'' ''BBB222'' ''z@y.com'',
                             fila 3 ''B'' ''CCC333'' ''x@y.com''],
                registros_id_seq = 4, throws = (\<lambda>s. False)\<rparr>"





section \<open>Properties of trim\<close>






section \<open>The duplicate scan of POST /api/registros\<close>











section \<open>The outcomes of POST /api/registros\<close>



lemma map_enumerate_snd: "map (\<lambda>(k, e). g e) (enumerate n es) = map g es"
  by (induction es arbitrary: n) auto



lemma length_valores: "length (valores_de clock u es) = length es"
  by (simp add: valores_de_def)
























section \<open>POST /api/login\<close>

lemma post_login_unknown:
  "loginSchema is_email b = Some (e, p) \<Longrightarrow> \<not> throws d Select \<Longrightarrow>
   find (\<lambda>u. email u = e) (users d) = None \<Longrightarrow>
   post_login is_email cmp tok b d = \<lparr>status = 401, json = Mensaje CredencialesInvalidas\<rparr>"
  by (simp add: post_login_def findFirst_user_def)

lemma post_login_wrong:
  "loginSchema is_email b = Some (e, p) \<Longrightarrow> \<not> throws d Select \<Longrightarrow>
   find (\<lambda>u. email u = e) (users d) = Some usr \<Longrightarrow> \<not> cmp p (passwordHash usr) \<Longrightarrow>
   post_login is_email cmp tok b d = \<lparr>status = 401, json = Mensaje CredencialesInvalidas\<rparr>"
  by (simp add: post_login_def findFirst_user_def)

text \<open>
  Claim C8. Take two logins with well-formed input whose user lookup is answered: one
  fails because no user has the email, the other because the password does not match the
  stored hash. Both are answered 401 with the message "Credenciales invalidas", and the
  two responses are equal, so the response does not tell which field was wrong.
\<close>

theorem C8_login_failures_uniform:
  assumes "loginSchema is_email b = Some (e, p)" and "\<not> throws d Select"
    and "loginSchema is_email b' = Some (e', p')" and "\<not> throws d' Select"
    and "find (\<lambda>u. email u = e) (users d) = None"
    and "find (\<lambda>u. email u = e') (users d') = Some usr"
    and "\<not> cmp p' (passwordHash usr)"
  shows "post_login is_email cmp tok b d = \<lparr>status = 401, json = Mensaje CredencialesInvalidas\<rparr> \<and>
         post_login is_email cmp tok' b' d' = \<lparr>status = 401, json = Mensaje CredencialesInvalidas\<rparr> \<and>
         post_login is_email cmp tok b d = post_login is_email cmp tok' b' d'"
  using post_login_unknown[OF assms(1,2,5), of cmp tok]
        post_login_wrong[where cmp = cmp and tok = tok', OF assms(3,4,6,7)]
  by simp

theorem C8_witness:
  "loginSchema con_arroba (Some \<lparr>body_email = ''eva@y.com'', body_password = ''secreto1''\<rparr>) =
     Some (''eva@y.com'', ''secreto1'') \<and>
   loginSchema con_arroba (Some \<lparr>body_email = ''ana@y.com'', body_password = ''secreto2''\<rparr>) =
     Some (''ana@y.com'', ''secreto2'') \<and>
   \<not> throws db_usuarios Select \<and>
   find (\<lambda>u. email u = ''eva@y.com'') (users db_usuarios) = None \<and>
   find (\<lambda>u. email u = ''ana@y.com'') (users db_usuarios) = Some ana \<and>
   \<not> compara ''secreto2'' (passwordHash ana) \<and>
   post_login con_arroba compara ''t1''
     (Some \<lparr>body_email = ''eva@y.com'', body_password = ''secreto1''\<rparr>) db_usuarios =
   post_login con_arroba compara ''t2''
     (Some \<lparr>body_email = ''ana@y.com'', body_password = ''secreto2''\<rparr>) db_usuarios \<and>
   status (post_login con_arroba compara ''t3''
     (Some \<lparr>body_email = ''ana@y.com'', body_password = ''secreto1''\<rparr>) db_usuarios) = 200"
proof -
  have h1: "loginSchema con_arroba (Some \<lparr>body_email = ''eva@y.com'', body_password = ''secreto1''\<rparr>) =
     Some (''eva@y.com'', ''secreto1'')" by code_simp
  have h2: "loginSchema con_arroba (Some \<lparr>body_email = ''ana@y.com'', body_password = ''secreto2''\<rparr>) =
     Some (''ana@y.com'', ''secreto2'')" by code_simp
  have h3: "\<not> throws db_usuarios Select" by (simp add: db_usuarios_def)
  have h4: "find (\<lambda>u. email u = ''eva@y.com'') (users db_usuarios) = None" by code_simp
  have h5: "find (\<lambda>u. email u = ''ana@y.com'') (users db_usuarios) = Some ana" by code_simp
  have h6: "\<not> compara ''secreto2'' (passwordHash ana)" by code_simp
  have ok: "status (post_login con_arroba compara ''t3''
     (Some \<lparr>body_email = ''ana@y.com'', body_password = ''secreto1''\<rparr>) db_usuarios) = 200"
    by code_simp
  from C8_login_failures_uniform[where cmp = compara and tok = "''t1''" and tok' = "''t2''",
         OF h1 h3 h2 h3 h4 h5 h6] h1 h2 h3 h4 h5 h6 ok
  show ?thesis by simp
qed

section \<open>DELETE /api/registros/:id\<close>









section \<open>GET /api/registros/por-dependencia\<close>

lemma sum_cuenta: "(\<Sum>dep\<in>dependencia ` set rs. cuenta rs dep) = length rs"
proof -
  have "cuenta rs dep = count_list (map dependencia rs) dep" for dep
    by (induction rs) (auto simp: cuenta_def)
  then have "(\<Sum>dep\<in>dependencia ` set rs. cuenta rs dep) =
             sum (count_list (map dependencia rs)) (set (map dependencia rs))"
    by simp
  also have "\<dots> = length (map dependencia rs)"
    by (rule sum_count_set) simp_all
  finally show ?thesis by simp
qed

lemma grupos_props:
  fixes rs :: "registro list"
  defines "grupos \<equiv> map (\<lambda>dep. (dep, cuenta rs dep)) (remdups (map dependencia rs))"
  shows "distinct (map fst grupos)" and "set (map fst grupos) = dependencia ` set rs"
    and "sum_list (map snd grupos) = length rs"
    and "\<And>g. g \<in> set grupos \<Longrightarrow> snd g = cuenta rs (fst g) \<and> 0 < snd g"
proof -
  have f: "map fst grupos = remdups (map dependencia rs)"
    by (simp add: grupos_def comp_def)
  show "distinct (map fst grupos)" by (simp add: f)
  show "set (map fst grupos) = dependencia ` set rs" by (simp add: f)
  have "sum_list (map snd grupos) = sum_list (map (cuenta rs) (remdups (map dependencia rs)))"
    by (simp add: grupos_def comp_def)
  also have "\<dots> = sum (cuenta rs) (set (remdups (map dependencia rs)))"
    by (rule sum_list_distinct_conv_sum_set) simp
  also have "\<dots> = length rs" using sum_cuenta[of rs] by simp
  finally show "sum_list (map snd grupos) = length rs" .
  show "snd g = cuenta rs (fst g) \<and> 0 < snd g" if "g \<in> set grupos" for g
  proof -
    from that obtain dep where g: "g = (dep, cuenta rs dep)" and "dep \<in> dependencia ` set rs"
      by (auto simp: grupos_def)
    then have "filter (\<lambda>r. dependencia r = dep) rs \<noteq> []"
      by (auto simp: filter_empty_conv)
    with g show ?thesis by (simp add: cuenta_def)
  qed
qed

lemma sort_desc:
  fixes gs :: "(string \<times> nat) list"
  assumes "distinct (map fst gs)"
  shows "distinct (map fst (sort_key (\<lambda>g. - int (snd g)) gs))"
    and "set (sort_key (\<lambda>g. - int (snd g)) gs) = set gs"
    and "sum_list (map snd (sort_key (\<lambda>g. - int (snd g)) gs)) = sum_list (map snd gs)"
    and "sorted_wrt (\<ge>) (map snd (sort_key (\<lambda>g. - int (snd g)) gs))"
proof -
  let ?s = "sort_key (\<lambda>g. - int (snd g)) gs"
  from assms have d: "distinct gs" and i: "inj_on fst (set gs)"
    by (simp_all add: distinct_map)
  show "set ?s = set gs" by simp
  have ds: "distinct ?s" using d by simp
  with i show "distinct (map fst ?s)" by (simp add: distinct_map)
  have "sum_list (map snd ?s) = sum snd (set ?s)"
    using ds by (rule sum_list_distinct_conv_sum_set)
  also have "\<dots> = sum snd (set gs)" by simp
  also have "\<dots> = sum_list (map snd gs)"
    using d by (rule sum_list_distinct_conv_sum_set[symmetric])
  finally show "sum_list (map snd ?s) = sum_list (map snd gs)" .
  have "sorted (map (\<lambda>g. - int (snd g)) ?s)" by (rule sorted_sort_key)
  then show "sorted_wrt (\<ge>) (map snd ?s)"
    by (simp add: sorted_wrt_map)
qed

text \<open>
  Claim C5. When the query is answered, the response lists every unit that has at least
  one stored row exactly once, and no other unit, each with the number of its rows counted
  over all users, in order of descending count; the counts add up to the number of stored
  rows.
\<close>

theorem C5_por_dependencia:
  assumes "\<not> throws d Select"
  shows "\<exists>res. get_por_dependencia d = \<lparr>status = 200, json = Dependencias res\<rparr> \<and>
           distinct (map fst res) \<and>
           set (map fst res) = dependencia ` set (registros d) \<and>
           list_all (\<lambda>g. snd g = cuenta (registros d) (fst g) \<and> 0 < snd g) res \<and>
           sorted_wrt (\<ge>) (map snd res) \<and>
           sum_list (map snd res) = length (registros d)"
proof -
  let ?gs = "map (\<lambda>dep. (dep, cuenta (registros d) dep)) (remdups (map dependencia (registros d)))"
  let ?res = "sort_key (\<lambda>g. - int (snd g)) ?gs"
  have r: "get_por_dependencia d = \<lparr>status = 200, json = Dependencias ?res\<rparr>"
    using assms by (simp add: get_por_dependencia_def select_por_dependencia_def cuenta_def)
  note g = grupos_props[where rs = "registros d"]
  note s = sort_desc[OF g(1)]
  have la: "list_all (\<lambda>g. snd g = cuenta (registros d) (fst g) \<and> 0 < snd g) ?res"
    unfolding list_all_iff s(2) using g(4) by blast
  have st: "set (map fst ?res) = dependencia ` set (registros d)"
  proof -
    have "set (map fst ?res) = set (map fst ?gs)" using s(2) by (simp only: set_map)
    with g(2) show ?thesis by simp
  qed
  have sm: "sum_list (map snd ?res) = length (registros d)" using s(3) g(3) by simp
  show ?thesis
  proof (intro exI conjI)
    show "get_por_dependencia d = \<lparr>status = 200, json = Dependencias ?res\<rparr>" by (rule r)
    show "distinct (map fst ?res)" by (rule s(1))
    show "set (map fst ?res) = dependencia ` set (registros d)" by (rule st)
    show "list_all (\<lambda>g. snd g = cuenta (registros d) (fst g) \<and> 0 < snd g) ?res" by (rule la)
    show "sorted_wrt (\<ge>) (map snd ?res)" by (rule s(4))
    show "sum_list (map snd ?res) = length (registros d)" by (rule sm)
  qed
qed

theorem C5_witness:
  "\<not> throws db_tres Select \<and>
   get_por_dependencia db_tres = \<lparr>status = 200, json = Dependencias [(''B'', 2), (''A'', 1)]\<rparr> \<and>
   sum_list (map snd [(''B'', 2 :: nat), (''A'', 1)]) = length (registros db_tres)"
proof -
  have t: "\<not> throws db_tres Select" by (simp add: db_tres_def)
  have v: "get_por_dependencia db_tres = \<lparr>status = 200, json = Dependencias [(''B'', 2), (''A'', 1)]\<rparr>"
    by code_simp
  from C5_por_dependencia[OF t] v
  have "sum_list (map snd [(''B'', 2 :: nat), (''A'', 1)]) = length (registros db_tres)"
    by auto
  with t v show ?thesis by simp
qed

section \<open>The PDF: column widths\<close>













section \<open>The PDF: an empty record set\<close>







end
